theory Spec2Isabelle
  imports Complex_Main
begin

section \<open>Values, exceptions and output\<close>

text \<open>
  The calculator of \<^verbatim>\<open>PythonBasics/ArithmeticOperation.py\<close> works on Python floats.
  A float is modelled by the real number it stands for, so the arithmetic below is exact:
  rounding, overflow, infinities and NaN of IEEE-754 are outside the model. What Python's
  own operators do beyond arithmetic (raising, returning a complex number) is written out.
\<close>

text \<open>
  A piece of an output line: literal text, the \<^verbatim>\<open>repr\<close> of a string, a printed integer,
  a printed float.
\<close>

datatype piece = Str string | Repr string | IntVal int | FloatVal real

type_synonym line = "piece list"

text \<open>The exceptions that occur, each with the message \<^verbatim>\<open>str(e)\<close> gives.\<close>

datatype exc =
    ZeroDivisionError line
  | ValueError line
  | TypeError line
  | KeyError line
  | EOFError
  | KeyboardInterrupt

text \<open>
  What \<^verbatim>\<open>**\<close> can return on two floats: a float, or a complex number (negative base,
  fractional exponent), kept unevaluated as base and exponent.
\<close>

datatype number = Float real | ComplexPow real real

section \<open>The six operations\<close>

text \<open>\<^verbatim>\<open>sum(values)\<close>: starts from 0 and adds from the left.\<close>

definition add :: "real list \<Rightarrow> real" where
  "add values = foldl (\<lambda>total v. total + v) 0 values"

text \<open>\<^verbatim>\<open>functools.reduce(operator.sub, rest, first)\<close>.\<close>

definition subtract :: "real \<Rightarrow> real list \<Rightarrow> real" where
  "subtract first rest = foldl (\<lambda>acc v. acc - v) first rest"

text \<open>\<^verbatim>\<open>functools.reduce(operator.mul, values, 1.0)\<close>.\<close>

definition multiply :: "real list \<Rightarrow> real" where
  "multiply values = foldl (\<lambda>acc v. acc * v) 1 values"

text \<open>
  The loop of \<^verbatim>\<open>divide\<close>; the first argument is the variable \<^verbatim>\<open>result\<close>, which
  starts as \<^verbatim>\<open>first\<close>.
\<close>

fun divide_py :: "real \<Rightarrow> real list \<Rightarrow> exc + real" where
  "divide_py result [] = Inr result"
| "divide_py result (r # rest) =
     (if r = 0 then Inl (ZeroDivisionError [Str ''Division by zero''])
      else divide_py (result / r) rest)"

text \<open>
  \<^verbatim>\<open>base ** exponent\<close> on floats: a zero exponent gives 1; a zero base with a negative
  exponent raises ZeroDivisionError (the wording of the message is the interpreter's);
  a negative base with a fractional exponent gives a complex number.
\<close>

definition power_py :: "real \<Rightarrow> real \<Rightarrow> exc + number" where
  "power_py base exponent =
     (if exponent = 0 then Inr (Float 1)
      else if base = 0 then
        (if exponent < 0
         then Inl (ZeroDivisionError [Str ''0.0 cannot be raised to a negative power''])
         else Inr (Float 0))
      else if base < 0 then
        (if exponent = of_int \<lfloor>exponent\<rfloor>
         then Inr (Float (base powi \<lfloor>exponent\<rfloor>))
         else Inr (ComplexPow base exponent))
      else Inr (Float (base powr exponent)))"

text \<open>
  \<^verbatim>\<open>a % b\<close> on floats is the remainder of the floored quotient:
  \<^verbatim>\<open>a - b * floor(a / b)\<close>.
\<close>

definition modulo_py :: "real \<Rightarrow> real \<Rightarrow> exc + real" where
  "modulo_py a b =
     (if b = 0 then Inl (ZeroDivisionError [Str ''Modulo by zero''])
      else Inr (a - b * of_int \<lfloor>a / b\<rfloor>))"

section \<open>The registry and the call \<^verbatim>\<open>func(*nums)\<close>\<close>

text \<open>
  \<^verbatim>\<open>func(*nums)\<close> binds the list to the parameters of the function; a list that does not
  fit them raises TypeError, with the interpreter's message.
\<close>

definition quoted :: "string \<Rightarrow> string" where
  "quoted s = [CHR 0x27] @ s @ [CHR 0x27]"

fun call_variadic :: "(real list \<Rightarrow> real) \<Rightarrow> real list \<Rightarrow> exc + number" where
  "call_variadic f nums = Inr (Float (f nums))"

fun call_first_rest ::
  "string \<Rightarrow> (real \<Rightarrow> real list \<Rightarrow> exc + real) \<Rightarrow> real list \<Rightarrow> exc + number" where
  "call_first_rest name f [] =
     Inl (TypeError [Str (name @ ''() missing 1 required positional argument: '' @ quoted ''first'')])"
| "call_first_rest name f (first # rest) =
     (case f first rest of Inl e \<Rightarrow> Inl e | Inr x \<Rightarrow> Inr (Float x))"

fun call_binary ::
  "string \<Rightarrow> string \<Rightarrow> string \<Rightarrow> (real \<Rightarrow> real \<Rightarrow> exc + number) \<Rightarrow> real list \<Rightarrow> exc + number" where
  "call_binary name p q f [] =
     Inl (TypeError [Str (name @ ''() missing 2 required positional arguments: ''
                          @ quoted p @ '' and '' @ quoted q)])"
| "call_binary name p q f [x] =
     Inl (TypeError [Str (name @ ''() missing 1 required positional argument: '' @ quoted q)])"
| "call_binary name p q f [x, y] = f x y"
| "call_binary name p q f (x # y # z # zs) =
     Inl (TypeError [Str (name @ ''() takes 2 positional arguments but ''),
                     IntVal (int (length (x # y # z # zs))), Str '' were given''])"

definition OP_MAP :: "(string \<times> (real list \<Rightarrow> exc + number) \<times> string) list" where
  "OP_MAP =
     [(''add'', call_variadic add, ''Add all numbers''),
      (''sub'', call_first_rest ''subtract'' (\<lambda>first rest. Inr (subtract first rest)),
         ''Subtract subsequent numbers from the first''),
      (''mul'', call_variadic multiply, ''Multiply all numbers''),
      (''div'', call_first_rest ''divide'' divide_py, ''Sequentially divide the first by the rest''),
      (''pow'', call_binary ''power'' ''base'' ''exponent'' power_py,
         ''Raise first number to the power of the second''),
      (''mod'', call_binary ''modulo'' ''a'' ''b''
                  (\<lambda>a b. case modulo_py a b of Inl e \<Rightarrow> Inl e | Inr x \<Rightarrow> Inr (Float x)),
         ''Modulo (remainder) of two numbers'')]"

section \<open>Input and output\<close>

text \<open>
  What the process writes: a printed line, the prompt of \<^verbatim>\<open>input\<close> (no newline), the
  traceback of an exception nobody caught.
\<close>

datatype written = Print line | Prompt string | Traceback exc

record io =
  stdout :: "written list"
  stderr :: "written list"

definition print_out :: "line \<Rightarrow> io \<Rightarrow> io" where
  "print_out l w = w\<lparr>stdout := stdout w @ [Print l]\<rparr>"

definition print_err :: "line \<Rightarrow> io \<Rightarrow> io" where
  "print_err l w = w\<lparr>stderr := stderr w @ [Print l]\<rparr>"

text \<open>
  Standard input is the list of what the next calls of \<^verbatim>\<open>input\<close> meet: a line, or an
  interrupt while waiting; when the list is used up the input has ended. \<^verbatim>\<open>input\<close> writes
  its prompt to standard output.
\<close>

datatype stdin_event = Line string | Interrupt

definition input :: "string \<Rightarrow> stdin_event list \<Rightarrow> io \<Rightarrow> io \<times> (exc + string \<times> stdin_event list)" where
  "input prompt stdin w =
     (let w' = w\<lparr>stdout := stdout w @ [Prompt prompt]\<rparr> in
      case stdin of
        [] \<Rightarrow> (w', Inl EOFError)
      | Interrupt # _ \<Rightarrow> (w', Inl KeyboardInterrupt)
      | Line s # rest \<Rightarrow> (w', Inr (s, rest)))"

text \<open>
  \<^verbatim>\<open>str.strip()\<close>, \<^verbatim>\<open>str.split()\<close> and \<^verbatim>\<open>str.lower()\<close> on ASCII text.
\<close>

definition is_space :: "char \<Rightarrow> bool" where
  "is_space c =
     (c \<in> set [CHR 0x09, CHR 0x0A, CHR 0x0B, CHR 0x0C, CHR 0x0D,
               CHR 0x1C, CHR 0x1D, CHR 0x1E, CHR 0x1F, CHR 0x20])"

definition strip :: "string \<Rightarrow> string" where
  "strip s = rev (dropWhile is_space (rev (dropWhile is_space s)))"

fun split_from :: "string \<Rightarrow> string \<Rightarrow> string list" where
  "split_from word [] = (if word = [] then [] else [word])"
| "split_from word (c # cs) =
     (if is_space c then (if word = [] then split_from [] cs else word # split_from [] cs)
      else split_from (word @ [c]) cs)"

definition split :: "string \<Rightarrow> string list" where
  "split s = split_from [] s"

definition lower :: "string \<Rightarrow> string" where
  "lower s =
     map (\<lambda>c. if c \<in> set ''ABCDEFGHIJKLMNOPQRSTUVWXYZ''
              then char_of (of_char c + (32::nat)) else c) s"

section \<open>Converting the tokens\<close>

text \<open>
  The builtins \<^verbatim>\<open>float(s)\<close> and \<^verbatim>\<open>int(s)\<close> are parameters of the model; \<open>None\<close> is
  their ValueError.
\<close>

record runtime =
  py_float :: "string \<Rightarrow> real option"
  py_int :: "string \<Rightarrow> int option"

datatype parsed = AsFloat real | AsInt int

fun to_float :: "parsed \<Rightarrow> real" where
  "to_float (AsFloat x) = x"
| "to_float (AsInt i) = of_int i"

definition invalid_numeric :: "string \<Rightarrow> exc" where
  "invalid_numeric s = ValueError [Str ''Invalid numeric value: '', Repr s]"

text \<open>The loop of \<^verbatim>\<open>_to_floats\<close>, with the list \<^verbatim>\<open>nums\<close> built so far.\<close>

fun to_floats_loop :: "runtime \<Rightarrow> parsed list \<Rightarrow> string list \<Rightarrow> exc + parsed list" where
  "to_floats_loop rt nums [] = Inr nums"
| "to_floats_loop rt nums (s # strs) =
     (if CHR ''.'' \<in> set s \<or> CHR ''e'' \<in> set (lower s) then
        (case py_float rt s of
           None \<Rightarrow> Inl (invalid_numeric s)
         | Some x \<Rightarrow> to_floats_loop rt (nums @ [AsFloat x]) strs)
      else
        (case py_int rt s of
           None \<Rightarrow> Inl (invalid_numeric s)
         | Some i \<Rightarrow> to_floats_loop rt (nums @ [AsInt i]) strs))"

definition to_floats :: "runtime \<Rightarrow> string list \<Rightarrow> exc + real list" where
  "to_floats rt strs =
     (case to_floats_loop rt [] strs of
        Inl e \<Rightarrow> Inl e
      | Inr nums \<Rightarrow> Inr (map to_float nums))"

section \<open>The command line: \<^verbatim>\<open>main\<close>\<close>

text \<open>
  \<^verbatim>\<open>parse_args\<close> is argparse; the model starts from the namespace it returns. Its
  \<^verbatim>\<open>choices\<close> let only the keys of the registry through as operation.
\<close>

record namespace =
  operation :: "string option"
  numbers :: "string list"

text \<open>How \<^verbatim>\<open>main\<close> ends: it returns a status, or an exception leaves it.\<close>

datatype ending = Returned int | Uncaught exc

text \<open>The try block of the interactive mode ends by \<^verbatim>\<open>return\<close> or with \<^verbatim>\<open>op\<close> and \<^verbatim>\<open>nums\<close>.\<close>

datatype resolved = Return int | Resolved string "real list"

definition registry_lines :: "written list" where
  "registry_lines =
     map (\<lambda>(k, _, desc). Print [Str (''  '' @ k @ [CHR 0x09] @ ''- '' @ desc)]) OP_MAP"

definition interactive :: "runtime \<Rightarrow> stdin_event list \<Rightarrow> io \<Rightarrow> io \<times> (exc + resolved)" where
  "interactive rt stdin w =
     (let w1 = print_out [Str ''No operation specified. Enter interactive mode.''] w;
          w2 = print_out [Str ''Available operations:''] w1;
          w3 = w2\<lparr>stdout := stdout w2 @ registry_lines\<rparr>
      in case input ''Operation: '' stdin w3 of
           (w4, Inl e) \<Rightarrow> (w4, Inl e)
         | (w4, Inr (answer, stdin')) \<Rightarrow>
             (let op = strip answer in
              if map_of OP_MAP op = None
              then (print_out [Str ''Unknown operation''] w4, Inr (Return 2))
              else case input ''Enter numbers separated by space: '' stdin' w4 of
                     (w5, Inl e) \<Rightarrow> (w5, Inl e)
                   | (w5, Inr (answer', _)) \<Rightarrow>
                       (case to_floats rt (split (strip answer')) of
                          Inl e \<Rightarrow> (w5, Inl e)
                        | Inr nums \<Rightarrow> (w5, Inr (Resolved op nums)))))"

text \<open>
  The interactive mode with its handler: the end of the input and an interrupt print an
  empty line and return 0; any other exception leaves \<^verbatim>\<open>main\<close>.
\<close>

definition interactive_mode ::
  "runtime \<Rightarrow> stdin_event list \<Rightarrow> io \<times> (ending + string \<times> real list)" where
  "interactive_mode rt stdin =
     (case interactive rt stdin \<lparr>stdout = [], stderr = []\<rparr> of
        (w, Inl e) \<Rightarrow>
          (if e = KeyboardInterrupt \<or> e = EOFError
           then (print_out [] w, Inl (Returned 0))
           else (w, Inl (Uncaught e)))
      | (w, Inr (Return n)) \<Rightarrow> (w, Inl (Returned n))
      | (w, Inr (Resolved op nums)) \<Rightarrow> (w, Inr (op, nums)))"

text \<open>
  The argument mode: no numbers and a token that is no number are reported on standard
  error and return 2.
\<close>

definition argument_mode ::
  "runtime \<Rightarrow> string \<Rightarrow> string list \<Rightarrow> io \<times> (ending + string \<times> real list)" where
  "argument_mode rt op strs =
     (let w = \<lparr>stdout = [], stderr = []\<rparr> in
      if strs = []
      then (print_err [Str ''Please provide numbers for the operation''] w, Inl (Returned 2))
      else (case to_floats rt strs of
              Inl (ValueError m) \<Rightarrow> (print_err m w, Inl (Returned 2))
            | Inl e \<Rightarrow> (w, Inl (Uncaught e))
            | Inr nums \<Rightarrow> (w, Inr (op, nums))))"

text \<open>
  The first half of \<^verbatim>\<open>main\<close>: it ends the run, or leaves the operation and the
  numbers. \<^verbatim>\<open>not args.operation\<close> holds for \<^verbatim>\<open>None\<close> and for the empty string.
\<close>

definition resolve ::
  "runtime \<Rightarrow> namespace \<Rightarrow> stdin_event list \<Rightarrow> io \<times> (ending + string \<times> real list)" where
  "resolve rt args stdin =
     (case operation args of
        None \<Rightarrow> interactive_mode rt stdin
      | Some op \<Rightarrow>
          if op = [] then interactive_mode rt stdin
          else argument_mode rt op (numbers args))"

text \<open>\<^verbatim>\<open>str(e)\<close>.\<close>

fun message :: "exc \<Rightarrow> line" where
  "message (ZeroDivisionError m) = m"
| "message (ValueError m) = m"
| "message (TypeError m) = m"
| "message (KeyError m) = m"
| "message EOFError = []"
| "message KeyboardInterrupt = []"

text \<open>\<^verbatim>\<open>round\<close> of a float: to the nearest integer, a tie to the even one.\<close>

definition py_round :: "real \<Rightarrow> int" where
  "py_round x =
     (let f = \<lfloor>x\<rfloor>; d = x - of_int f in
      if d < 1 / 2 then f
      else if 1 / 2 < d then f + 1
      else if even f then f else f + 1)"

text \<open>
  The last lines of \<^verbatim>\<open>main\<close>: what is printed for a result. \<^verbatim>\<open>round\<close> of a complex
  number raises TypeError.
\<close>

definition display :: "number \<Rightarrow> exc + line" where
  "display result =
     (case result of
        ComplexPow b e \<Rightarrow>
          Inl (TypeError [Str (''type complex doesn'' @ [CHR 0x27] @ ''t define __round__ method'')])
      | Float r \<Rightarrow>
          if \<bar>r - of_int (py_round r)\<bar> < 1 / 10 ^ 12
          then Inr [IntVal (py_round r)]
          else Inr [FloatVal r])"

text \<open>The second half of \<^verbatim>\<open>main\<close>, from \<^verbatim>\<open>func = OP_MAP[op][0]\<close> on.\<close>

definition dispatch :: "string \<Rightarrow> real list \<Rightarrow> io \<Rightarrow> io \<times> ending" where
  "dispatch op nums w =
     (case map_of OP_MAP op of
        None \<Rightarrow> (w, Uncaught (KeyError [Repr op]))
      | Some (func, desc) \<Rightarrow>
          if (op = ''pow'' \<or> op = ''mod'') \<and> length nums \<noteq> 2 then
            (print_err [Str (''Operation '' @ quoted op @ '' requires exactly two numbers'')] w,
             Returned 2)
          else if op = ''sub'' \<and> length nums < 1 then
            (print_err [Str ''Subtraction requires at least one number''] w, Returned 2)
          else if (op = ''add'' \<or> op = ''mul'') \<and> length nums < 1 then
            (print_err [Str (''Operation '' @ quoted op @ '' requires at least one number'')] w,
             Returned 2)
          else
            (case func nums of
               Inl (ZeroDivisionError m) \<Rightarrow> (print_err (Str ''Error: '' # m) w, Returned 3)
             | Inl KeyboardInterrupt \<Rightarrow> (w, Uncaught KeyboardInterrupt)
             | Inl e \<Rightarrow> (print_err (Str ''Error: '' # message e) w, Returned 4)
             | Inr result \<Rightarrow>
                 (case display result of
                    Inl e \<Rightarrow> (w, Uncaught e)
                  | Inr l \<Rightarrow> (print_out l w, Returned 0))))"

definition main :: "runtime \<Rightarrow> namespace \<Rightarrow> stdin_event list \<Rightarrow> io \<times> ending" where
  "main rt args stdin =
     (case resolve rt args stdin of
        (w, Inl e) \<Rightarrow> (w, e)
      | (w, Inr (op, nums)) \<Rightarrow> dispatch op nums w)"

text \<open>
  \<^verbatim>\<open>raise SystemExit(main())\<close>: the status \<^verbatim>\<open>main\<close> returns is the exit code; an
  exception that leaves \<^verbatim>\<open>main\<close> is printed as a traceback on standard error and the
  exit code is 1.
\<close>

definition run :: "runtime \<Rightarrow> namespace \<Rightarrow> stdin_event list \<Rightarrow> io \<times> int" where
  "run rt args stdin =
     (case main rt args stdin of
        (w, Returned n) \<Rightarrow> (w, n)
      | (w, Uncaught e) \<Rightarrow> (w\<lparr>stderr := stderr w @ [Traceback e]\<rparr>, 1))"

definition exit_code :: "runtime \<Rightarrow> namespace \<Rightarrow> stdin_event list \<Rightarrow> int" where
  "exit_code rt args stdin = snd (run rt args stdin)"

section \<open>A runtime for the examples\<close>

text \<open>
  \<^verbatim>\<open>int\<close> and \<^verbatim>\<open>float\<close> on plain ASCII decimal literals: an optional sign, digits, for a
  float also a fraction and an exponent. Every other text is rejected, as Python rejects
  text that is no number.
\<close>

definition digit_value :: "char \<Rightarrow> nat option" where
  "digit_value c = (if c \<in> set ''0123456789'' then Some (of_char c - 48) else None)"

fun digits_value :: "nat \<Rightarrow> string \<Rightarrow> nat option" where
  "digits_value acc [] = Some acc"
| "digits_value acc (c # cs) =
     (case digit_value c of None \<Rightarrow> None | Some d \<Rightarrow> digits_value (10 * acc + d) cs)"

definition unsigned_literal :: "string \<Rightarrow> nat option" where
  "unsigned_literal s = (if s = [] then None else digits_value 0 s)"

definition int_literal :: "string \<Rightarrow> int option" where
  "int_literal s =
     (case s of
        [] \<Rightarrow> None
      | c # cs \<Rightarrow>
          if c = CHR ''-'' then map_option (\<lambda>n. - int n) (unsigned_literal cs)
          else if c = CHR ''+'' then map_option int (unsigned_literal cs)
          else map_option int (unsigned_literal s))"

definition mantissa_literal :: "string \<Rightarrow> real option" where
  "mantissa_literal m =
     (let ip = takeWhile (\<lambda>c. c \<noteq> CHR ''.'') m;
          fp = drop (Suc (length ip)) m
      in if ip = [] \<and> fp = [] then None
         else case (digits_value 0 ip, digits_value 0 fp) of
                (Some i, Some f) \<Rightarrow> Some (real i + real f / 10 ^ length fp)
              | _ \<Rightarrow> None)"

definition float_literal :: "string \<Rightarrow> real option" where
  "float_literal s =
     (let negative = (s \<noteq> [] \<and> hd s = CHR ''-'');
          body = (if s \<noteq> [] \<and> (hd s = CHR ''-'' \<or> hd s = CHR ''+'') then tl s else s);
          m = takeWhile (\<lambda>c. c \<noteq> CHR ''e'' \<and> c \<noteq> CHR ''E'') body;
          ex = drop (length m) body
      in case (mantissa_literal m, if ex = [] then Some 0 else int_literal (tl ex)) of
           (Some x, Some k) \<Rightarrow> Some ((if negative then - x else x) * 10 powi k)
         | _ \<Rightarrow> None)"

definition ascii_runtime :: runtime where
  "ascii_runtime = \<lparr>py_float = float_literal, py_int = int_literal\<rparr>"

section \<open>The left fold, as the specification writes it\<close>

text \<open>
  \<open>((a - b) - c) - ...\<close>: the value of a sequence with one element is that element; a longer
  sequence applies the operation to the value of all but the last element and the last one.
\<close>

function left_fold :: "(real \<Rightarrow> real \<Rightarrow> real) \<Rightarrow> real list \<Rightarrow> real" where
  "left_fold f xs =
     (if length xs \<le> 1 then (case xs of [] \<Rightarrow> 0 | a # _ \<Rightarrow> a)
      else f (left_fold f (butlast xs)) (last xs))"
  by pat_completeness auto
termination
  by (relation "measure (\<lambda>(f, xs). length xs)") auto

declare left_fold.simps [simp del]

section \<open>The arity table and unparseable tokens, as the specification writes them\<close>

text \<open>
  Exactly two values for \<^verbatim>\<open>pow\<close> and \<^verbatim>\<open>mod\<close>; at least one value for \<^verbatim>\<open>add\<close>,
  \<^verbatim>\<open>mul\<close>, \<^verbatim>\<open>sub\<close> and \<^verbatim>\<open>div\<close>.
\<close>

definition arity_valid :: "string \<Rightarrow> nat \<Rightarrow> bool" where
  "arity_valid op n =
     (if op = ''pow'' \<or> op = ''mod'' then n = 2
      else if op = ''add'' \<or> op = ''mul'' \<or> op = ''sub'' \<or> op = ''div'' then 1 \<le> n
      else False)"

text \<open>A token is not parseable as a number when neither builtin accepts it.\<close>

definition unparseable :: "runtime \<Rightarrow> string \<Rightarrow> bool" where
  "unparseable rt s = (py_float rt s = None \<and> py_int rt s = None)"

text \<open>
  The nearest integer of a real number: the floor or the ceiling, whichever is closer.
\<close>

definition nearest_integer :: "real \<Rightarrow> int" where
  "nearest_integer r = (if r - of_int \<lfloor>r\<rfloor> \<le> of_int \<lceil>r\<rceil> - r then \<lfloor>r\<rfloor> else \<lceil>r\<rceil>)"

section \<open>The tests of the repository\<close>

text \<open>The cases of \<^verbatim>\<open>tests/test_arithmetic.py\<close>, evaluated on the model.\<close>

lemma test_add: "add [1, 2, 3] = 6"
  by (simp add: add_def)

lemma test_subtract: "subtract 10 [1, 2] = 7"
  by (simp add: subtract_def)

lemma test_multiply: "multiply [2, 3, 4] = 24"
  by (simp add: multiply_def)

lemma test_divide: "divide_py 20 [2, 2] = Inr 5"
  by simp

lemma test_divide_by_zero: "divide_py 1 [0] = Inl (ZeroDivisionError [Str ''Division by zero''])"
  by simp

lemma test_power: "power_py 2 3 = Inr (Float 8)"
  by (simp add: power_py_def)

lemma test_modulo: "modulo_py 10 3 = Inr 1"
  by (simp add: modulo_py_def)

lemma test_modulo_by_zero: "modulo_py 10 0 = Inl (ZeroDivisionError [Str ''Modulo by zero''])"
  by (simp add: modulo_py_def)

section \<open>Sum, product and left folds\<close>





lemma left_fold_single: "left_fold f [a] = a"
  by (simp add: left_fold.simps)

lemma left_fold_snoc: "left_fold f ((a # xs) @ [z]) = f (left_fold f (a # xs)) z"
  by (subst left_fold.simps) (simp add: butlast_append)

lemma left_fold_foldl: "left_fold f (a # rest) = foldl f a rest"
proof (induction rest rule: rev_induct)
  case Nil
  show ?case by (simp add: left_fold_single)
next
  case (snoc z rest)
  have "left_fold f (a # rest @ [z]) = f (left_fold f (a # rest)) z"
    using left_fold_snoc [of f a rest z] by simp
  with snoc show ?case by simp
qed

lemma divide_py_foldl:
  "0 \<notin> set rest \<Longrightarrow> divide_py result rest = Inr (foldl (\<lambda>acc v. acc / v) result rest)"
  by (induction rest arbitrary: result) auto

lemma divide_py_zero:
  "0 \<in> set rest \<Longrightarrow> divide_py result rest = Inl (ZeroDivisionError [Str ''Division by zero''])"
  by (induction rest arbitrary: result) auto

text \<open>
  C2. For every non-empty sequence \<open>a # rest\<close>, \<^verbatim>\<open>subtract\<close> computes the left fold
  \<open>((a - b) - c) - ...\<close> starting from the first value, and \<^verbatim>\<open>divide\<close> computes the
  left-fold quotient, which exists when no divisor is zero; on a sequence of exactly one
  element each returns that element unchanged.
\<close>

theorem subtract_divide_left_fold:
  "subtract a rest = left_fold (\<lambda>acc v. acc - v) (a # rest)
   \<and> (0 \<notin> set rest \<longrightarrow> divide_py a rest = Inr (left_fold (\<lambda>acc v. acc / v) (a # rest)))
   \<and> subtract a [] = a \<and> divide_py a [] = Inr a"
  by (simp add: subtract_def left_fold_foldl divide_py_foldl)

theorem subtract_divide_left_fold_witness:
  "subtract 10 [1, 2] = 7 \<and> (0::real) \<notin> set [2, 2] \<and> divide_py 20 [2, 2] = Inr 5
   \<and> subtract 3 [] = 3 \<and> divide_py 3 [] = Inr 3"
  using subtract_divide_left_fold [of 10 "[1, 2]"] subtract_divide_left_fold [of 20 "[2, 2]"]
    subtract_divide_left_fold [of 3 "[]"]
  by (simp add: left_fold_foldl)

section \<open>What \<^verbatim>\<open>main\<close> does with an operation and its numbers\<close>




lemma lookup_div:
  "map_of OP_MAP ''div''
     = Some (call_first_rest ''divide'' divide_py, ''Sequentially divide the first by the rest'')"
  by (simp add: OP_MAP_def)


lemma exit_code_resolved:
  "resolve rt args stdin = (w, Inr (op, nums)) \<Longrightarrow>
   exit_code rt args stdin = (case snd (dispatch op nums w) of Returned n \<Rightarrow> n | Uncaught e \<Rightarrow> 1)"
  by (simp add: exit_code_def run_def main_def split: prod.splits ending.splits)



section \<open>Division and modulo by zero\<close>

lemma dispatch_div_zero:
  "0 \<in> set rest \<Longrightarrow>
   dispatch ''div'' (first # rest) w
     = (print_err [Str ''Error: '', Str ''Division by zero''] w, Returned 3)"
  by (simp add: dispatch_def lookup_div divide_py_zero)

lemma dispatch_mod_zero:
  "dispatch ''mod'' [a, 0] w = (print_err [Str ''Error: '', Str ''Modulo by zero''] w, Returned 3)"
  by (simp add: dispatch_def OP_MAP_def modulo_py_def)

text \<open>
  C3. For every sequence whose divisors include a zero, \<^verbatim>\<open>divide\<close> fails with the
  division-by-zero error: the zero is met before the division by it, so the result is the
  error and no number. For every pair whose second value is zero, \<^verbatim>\<open>modulo\<close> fails with
  the modulo-by-zero error. In both cases the process exits with code 3.
\<close>

theorem zero_divisor_exit_3:
  "(0 \<in> set rest \<longrightarrow>
      divide_py first rest = Inl (ZeroDivisionError [Str ''Division by zero''])
      \<and> (resolve rt args stdin = (w, Inr (''div'', first # rest))
           \<longrightarrow> exit_code rt args stdin = 3))
   \<and> modulo_py a 0 = Inl (ZeroDivisionError [Str ''Modulo by zero''])
   \<and> (resolve rt args stdin = (w, Inr (''mod'', [a, 0])) \<longrightarrow> exit_code rt args stdin = 3)"
  by (simp add: divide_py_zero exit_code_resolved dispatch_div_zero dispatch_mod_zero
      modulo_py_def)

theorem zero_divisor_exit_3_witness:
  "(0::real) \<in> set [0]
   \<and> divide_py 1 [0] = Inl (ZeroDivisionError [Str ''Division by zero''])
   \<and> resolve ascii_runtime \<lparr>operation = Some ''div'', numbers = [''1'', ''0'']\<rparr> []
       = (\<lparr>stdout = [], stderr = []\<rparr>, Inr (''div'', [1, 0]))
   \<and> exit_code ascii_runtime \<lparr>operation = Some ''div'', numbers = [''1'', ''0'']\<rparr> [] = 3
   \<and> modulo_py 10 0 = Inl (ZeroDivisionError [Str ''Modulo by zero''])
   \<and> resolve ascii_runtime \<lparr>operation = Some ''mod'', numbers = [''10'', ''0'']\<rparr> []
       = (\<lparr>stdout = [], stderr = []\<rparr>, Inr (''mod'', [10, 0]))
   \<and> exit_code ascii_runtime \<lparr>operation = Some ''mod'', numbers = [''10'', ''0'']\<rparr> [] = 3"
proof -
  have d: "resolve ascii_runtime \<lparr>operation = Some ''div'', numbers = [''1'', ''0'']\<rparr> []
       = (\<lparr>stdout = [], stderr = []\<rparr>, Inr (''div'', [1, 0]))"
    by (simp add: resolve_def argument_mode_def to_floats_def lower_def ascii_runtime_def int_literal_def
        unsigned_literal_def digit_value_def)
  have m: "resolve ascii_runtime \<lparr>operation = Some ''mod'', numbers = [''10'', ''0'']\<rparr> []
       = (\<lparr>stdout = [], stderr = []\<rparr>, Inr (''mod'', [10, 0]))"
    by (simp add: resolve_def argument_mode_def to_floats_def lower_def ascii_runtime_def int_literal_def
        unsigned_literal_def digit_value_def)
  show ?thesis
    using d m
      zero_divisor_exit_3 [of "[0]" 1 ascii_runtime
        "\<lparr>operation = Some ''div'', numbers = [''1'', ''0'']\<rparr>" "[]"
        "\<lparr>stdout = [], stderr = []\<rparr>" 10]
      zero_divisor_exit_3 [of "[0]" 1 ascii_runtime
        "\<lparr>operation = Some ''mod'', numbers = [''10'', ''0'']\<rparr>" "[]"
        "\<lparr>stdout = [], stderr = []\<rparr>" 10]
    by simp
qed

section \<open>The arity of the operations\<close>

lemma dispatch_pow_mod_arity:
  "op = ''pow'' \<or> op = ''mod'' \<Longrightarrow> length nums \<noteq> 2 \<Longrightarrow>
   dispatch op nums w =
     (print_err [Str (''Operation '' @ quoted op @ '' requires exactly two numbers'')] w, Returned 2)"
  by (erule disjE) (simp_all add: dispatch_def OP_MAP_def)

lemma dispatch_sub_arity:
  "dispatch ''sub'' [] w = (print_err [Str ''Subtraction requires at least one number''] w, Returned 2)"
  by (simp add: dispatch_def OP_MAP_def)

lemma dispatch_add_mul_arity:
  "op = ''add'' \<or> op = ''mul'' \<Longrightarrow>
   dispatch op [] w =
     (print_err [Str (''Operation '' @ quoted op @ '' requires at least one number'')] w, Returned 2)"
  by (erule disjE) (simp_all add: dispatch_def OP_MAP_def)

text \<open>
  For every operation but \<^verbatim>\<open>div\<close>, a violation of the arity table is reported on standard
  error and \<^verbatim>\<open>main\<close> returns 2.
\<close>

lemma dispatch_arity_violation:
  assumes "op \<in> {''pow'', ''mod'', ''add'', ''mul'', ''sub''}" "\<not> arity_valid op (length nums)"
  shows "\<exists>l. dispatch op nums w = (print_err l w, Returned 2)"
proof -
  consider "op = ''pow'' \<or> op = ''mod''" | "op = ''sub''" | "op = ''add'' \<or> op = ''mul''"
    using assms(1) by auto
  then show ?thesis
  proof cases
    case 1
    with assms(2) have "length nums \<noteq> 2" by (auto simp: arity_valid_def)
    from dispatch_pow_mod_arity [OF 1 this] show ?thesis by blast
  next
    case 2
    with assms(2) have "nums = []" by (cases nums) (auto simp: arity_valid_def)
    with 2 dispatch_sub_arity show ?thesis by blast
  next
    case 3
    with assms(2) have "nums = []" by (cases nums) (auto simp: arity_valid_def)
    with dispatch_add_mul_arity [OF 3] show ?thesis by blast
  qed
qed

text \<open>
  C4. Every violation of the arity table ends with an arity error and exit code 2. The code
  has no check for \<^verbatim>\<open>div\<close>: in interactive mode, \<^verbatim>\<open>div\<close> with an empty line of numbers
  violates the table (no value), the call \<^verbatim>\<open>divide()\<close> raises TypeError, and the exit code
  is 4.
\<close>

theorem div_without_numbers_exit_4:
  "\<not> arity_valid ''div'' (length ([] :: real list))
   \<and> exit_code ascii_runtime \<lparr>operation = None, numbers = []\<rparr> [Line ''div'', Line ''''] = 4
   \<and> stderr (fst (run ascii_runtime \<lparr>operation = None, numbers = []\<rparr> [Line ''div'', Line '''']))
       = [Print [Str ''Error: '',
                 Str (''divide() missing 1 required positional argument: '' @ quoted ''first'')]]"
  by (simp add: arity_valid_def exit_code_def run_def main_def resolve_def interactive_mode_def interactive_def
      input_def strip_def split_def is_space_def OP_MAP_def to_floats_def dispatch_def
      print_out_def print_err_def)

section \<open>Tokens that are no numbers\<close>

lemma to_floats_loop_unparseable:
  "\<exists>s \<in> set strs. unparseable rt s \<Longrightarrow>
   \<exists>s \<in> set strs. to_floats_loop rt nums strs = Inl (invalid_numeric s)"
proof (induction strs arbitrary: nums)
  case Nil
  then show ?case by simp
next
  case (Cons s strs)
  show ?case
  proof (cases "unparseable rt s")
    case True
    then show ?thesis by (simp add: unparseable_def)
  next
    case False
    with Cons.prems have "\<exists>s \<in> set strs. unparseable rt s" by auto
    from Cons.IH [OF this] show ?thesis
      by (auto split: option.splits)
  qed
qed

text \<open>The conversion fails with the error that names a token of the list.\<close>

lemma to_floats_unparseable:
  "\<exists>s \<in> set strs. unparseable rt s \<Longrightarrow>
   \<exists>s \<in> set strs. to_floats rt strs = Inl (invalid_numeric s)"
  using to_floats_loop_unparseable [of strs rt "[]"] by (auto simp: to_floats_def)

text \<open>In argument mode the error is printed on standard error and the exit code is 2.\<close>

lemma argument_mode_invalid_number:
  assumes "operation args = Some op" "op \<noteq> []" "\<exists>s \<in> set (numbers args). unparseable rt s"
  shows "\<exists>s \<in> set (numbers args).
           run rt args stdin
             = (\<lparr>stdout = [], stderr = [Print [Str ''Invalid numeric value: '', Repr s]]\<rparr>, 2)"
proof -
  from to_floats_unparseable [OF assms(3)] obtain s where
    s: "s \<in> set (numbers args)" "to_floats rt (numbers args) = Inl (invalid_numeric s)" by blast
  from s(1) have "numbers args \<noteq> []" by auto
  with assms s(2) have "run rt args stdin
      = (\<lparr>stdout = [], stderr = [Print [Str ''Invalid numeric value: '', Repr s]]\<rparr>, 2)"
    by (simp add: run_def main_def resolve_def argument_mode_def invalid_numeric_def print_err_def)
  with s(1) show ?thesis by blast
qed

text \<open>
  C5. For every token that is not parseable as a number the conversion fails with the error
  that names it and the process exits with code 2, in interactive mode as in argument mode.
  The interactive mode converts with the same function, but nothing there catches the error:
  with the answers \<^verbatim>\<open>add\<close> and \<^verbatim>\<open>1 abc\<close> the ValueError leaves \<^verbatim>\<open>main\<close>, a traceback
  is printed and the exit code is 1.
\<close>

theorem interactive_invalid_number_uncaught:
  "unparseable ascii_runtime ''abc''
   \<and> exit_code ascii_runtime \<lparr>operation = None, numbers = []\<rparr> [Line ''add'', Line ''1 abc''] = 1
   \<and> stderr (fst (run ascii_runtime \<lparr>operation = None, numbers = []\<rparr>
                    [Line ''add'', Line ''1 abc'']))
       = [Traceback (ValueError [Str ''Invalid numeric value: '', Repr ''abc''])]"
  by (simp add: unparseable_def invalid_numeric_def float_literal_def mantissa_literal_def
      exit_code_def run_def main_def resolve_def interactive_mode_def interactive_def input_def strip_def split_def
      is_space_def OP_MAP_def to_floats_def ascii_runtime_def int_literal_def
      unsigned_literal_def digit_value_def lower_def print_out_def)

section \<open>Zero operands\<close>




section \<open>Printing the result\<close>



text \<open>No integer is closer to \<open>r\<close> than \<open>nearest_integer r\<close>.\<close>

lemma nearest_integer_nearest: "\<bar>r - of_int (nearest_integer r)\<bar> \<le> \<bar>r - of_int m\<bar>"
proof -
  have "m \<le> \<lfloor>r\<rfloor> \<or> \<lceil>r\<rceil> \<le> m" by linarith
  then show ?thesis
  proof
    assume "m \<le> \<lfloor>r\<rfloor>"
    then have "real_of_int m \<le> of_int \<lfloor>r\<rfloor>" by simp
    then show ?thesis by (simp add: nearest_integer_def) linarith
  next
    assume "\<lceil>r\<rceil> \<le> m"
    then have "real_of_int \<lceil>r\<rceil> \<le> of_int m" by simp
    then show ?thesis by (simp add: nearest_integer_def) linarith
  qed
qed




section \<open>Where the messages go\<close>

text \<open>
  C8. Every error is reported on standard error; standard output carries only the result,
  the prompts and the registry. The code prints \<^verbatim>\<open>Unknown operation\<close> without
  \<^verbatim>\<open>file=sys.stderr\<close>: with the answer \<^verbatim>\<open>foo\<close> the message is the last line of standard
  output, standard error stays empty, and the exit code is 2.
\<close>

theorem unknown_operation_on_stdout:
  "map_of OP_MAP (strip ''foo'') = None
   \<and> stderr (fst (run ascii_runtime \<lparr>operation = None, numbers = []\<rparr> [Line ''foo''])) = []
   \<and> last (stdout (fst (run ascii_runtime \<lparr>operation = None, numbers = []\<rparr> [Line ''foo''])))
       = Print [Str ''Unknown operation'']
   \<and> exit_code ascii_runtime \<lparr>operation = None, numbers = []\<rparr> [Line ''foo''] = 2"
  by (simp add: exit_code_def run_def main_def resolve_def interactive_mode_def interactive_def input_def strip_def
      is_space_def OP_MAP_def print_out_def)

section \<open>The end of the input in interactive mode\<close>

lemma run_eof_first:
  "operation args = None \<Longrightarrow> stdin = [] \<or> stdin = Interrupt # rest \<Longrightarrow>
   snd (run rt args stdin) = 0 \<and> stderr (fst (run rt args stdin)) = []"
  by (auto simp: run_def main_def resolve_def interactive_mode_def interactive_def input_def print_out_def)

lemma run_eof_second:
  "operation args = None \<Longrightarrow> map_of OP_MAP (strip s) \<noteq> None \<Longrightarrow>
   stdin = [Line s] \<or> stdin = Line s # Interrupt # rest \<Longrightarrow>
   snd (run rt args stdin) = 0 \<and> stderr (fst (run rt args stdin)) = []"
  by (auto simp: run_def main_def resolve_def interactive_mode_def interactive_def input_def print_out_def)

text \<open>
  C9. In an interactive session, the end of the input or an interrupt at a prompt ends the
  process with exit code 0 and nothing on standard error: at the first prompt, and at the
  second one after an operation of the registry was given.
\<close>

theorem interactive_end_of_input_exit_0:
  assumes "operation args = None"
  shows "(\<forall>stdin \<in> set [[], Interrupt # rest].
            exit_code rt args stdin = 0 \<and> stderr (fst (run rt args stdin)) = [])
       \<and> (map_of OP_MAP (strip s) \<noteq> None \<longrightarrow>
            (\<forall>stdin \<in> set [[Line s], Line s # Interrupt # rest].
               exit_code rt args stdin = 0 \<and> stderr (fst (run rt args stdin)) = []))"
  using run_eof_first [OF assms] run_eof_second [OF assms]
  by (simp add: exit_code_def)

theorem interactive_end_of_input_exit_0_witness:
  "operation \<lparr>operation = None, numbers = []\<rparr> = None
   \<and> map_of OP_MAP (strip ''add'') \<noteq> None
   \<and> exit_code ascii_runtime \<lparr>operation = None, numbers = []\<rparr> [] = 0
   \<and> stderr (fst (run ascii_runtime \<lparr>operation = None, numbers = []\<rparr> [])) = []
   \<and> exit_code ascii_runtime \<lparr>operation = None, numbers = []\<rparr> [Interrupt] = 0
   \<and> stderr (fst (run ascii_runtime \<lparr>operation = None, numbers = []\<rparr> [Interrupt])) = []
   \<and> exit_code ascii_runtime \<lparr>operation = None, numbers = []\<rparr> [Line ''add''] = 0
   \<and> stderr (fst (run ascii_runtime \<lparr>operation = None, numbers = []\<rparr> [Line ''add''])) = []
   \<and> exit_code ascii_runtime \<lparr>operation = None, numbers = []\<rparr> [Line ''add'', Interrupt] = 0
   \<and> stderr (fst (run ascii_runtime \<lparr>operation = None, numbers = []\<rparr>
                    [Line ''add'', Interrupt])) = []"
  using interactive_end_of_input_exit_0
    [of "\<lparr>operation = None, numbers = []\<rparr>" "[]" ascii_runtime "''add''"]
  by (simp add: OP_MAP_def strip_def is_space_def)

section \<open>The sign and the size of the remainder\<close>



end
